theory Spec2Isabelle
  imports Complex_Main "HOL-Library.AList"
begin

section \<open>The ledger documents\<close>

text \<open>
  The three contracts (property, transaction, escrow) keep their records in one key-value
  store: every record is written with \<^verbatim>\<open>putState(id, JSON)\<close> and read back with
  \<^verbatim>\<open>getState(id)\<close> and \<^verbatim>\<open>JSON.parse\<close>. No operation looks at \<^verbatim>\<open>docType\<close>
  after reading, so a key is read as whatever the operation expects. A stored document is
  therefore modelled as one record with every field that any contract writes; a field the
  JSON object does not have (\<^verbatim>\<open>undefined\<close> in JavaScript) is \<open>None\<close>.

  Numbers are the results of \<^verbatim>\<open>parseFloat\<close>; they are taken as rationals, so the
  rounding of binary floating point, \<^verbatim>\<open>NaN\<close> and the infinities are outside the model.
  An argument that carries JSON text is given by the result of \<^verbatim>\<open>JSON.parse\<close> on it:
  \<open>None\<close> when the text is rejected (a \<^verbatim>\<open>SyntaxError\<close>), the parsed value otherwise.
  Every \<^verbatim>\<open>new Date().toISOString()\<close> of one invocation is the argument \<open>now\<close>.
\<close>

type_synonym json = "(string \<times> string) list"

text \<open>
  Every document has a \<^verbatim>\<open>status\<close>; these are the seven strings that the operations
  write into it and compare it with.
\<close>

datatype status =
  active | pending | created | in_progress | ready_for_completion | completed | cancelled

record transfer_record =
  h_type :: string
  h_transactionId :: "string option"
  h_escrowId :: "string option"
  fromOwnerId :: "string option"
  toOwnerId :: "string option"
  h_price :: "rat option"
  h_paymentMethod :: "string option"
  h_details :: "json option"
  h_timestamp :: string

record payment =
  paymentId :: string
  amount :: rat
  pay_method :: string
  pay_details :: json
  pay_timestamp :: string

record document =
  documentId :: string
  documentType :: string
  documentHash :: string
  metadata :: json
  doc_timestamp :: string

record verification =
  conditionId :: string
  verifierId :: string
  ver_details :: json
  ver_timestamp :: string

record condition =
  cond_id :: string
  cond_body :: json

record doc =
  docType :: string
  status :: status
  createdAt :: string
  updatedAt :: string
  propertyId :: "string option"
  address :: "string option"
  ownerId :: "string option"
  details :: "json option"
  history :: "transfer_record list option"
  transactionId :: "string option"
  sellerId :: "string option"
  buyerId :: "string option"
  price :: "rat option"
  paymentMethod :: "string option"
  tx_notes :: "string option"
  cancellationReason :: "string option"
  escrowId :: "string option"
  conditions :: "condition list option"
  payments :: "payment list option"
  documents :: "document list option"
  conditions_met :: "(string \<times> bool) list option"
  verifications :: "verification list option"

text \<open>
  The errors. The chaincode throws plain \<^verbatim>\<open>Error\<close> objects that differ in their
  message; each message is given the name the specification uses for it:
  "does not exist" is \<open>NotFoundError\<close>, "is not owned by" is \<open>OwnershipMismatchError\<close>,
  "Cannot ... in ... status", "is not ready for completion", "is not in pending status"
  and "cannot be cancelled" are \<open>InvalidStateError\<close>, "Condition ... does not exist in
  escrow" is \<open>UnknownConditionError\<close>. \<open>SyntaxError\<close> is what \<^verbatim>\<open>JSON.parse\<close> throws
  and \<open>TypeError\<close> what JavaScript throws on \<^verbatim>\<open>undefined.push\<close>, \<^verbatim>\<open>undefined.reduce\<close>
  and \<^verbatim>\<open>k in undefined\<close>. No operation throws \<open>AlreadyExistsError\<close>; it is the
  specification's name for a refused duplicate id.
\<close>

datatype error =
  NotFoundError | AlreadyExistsError | OwnershipMismatchError | InvalidStateError
  | UnknownConditionError | SyntaxError | TypeError

type_synonym ledger = "string \<Rightarrow> doc option"

type_synonym outcome = "(error + doc) \<times> ledger"

text \<open>
  \<^verbatim>\<open>getState\<close> answers with no bytes for a key that holds nothing, and every operation
  treats that as "does not exist". Where an operation reads under a key that it took from
  a document (\<^verbatim>\<open>escrow.propertyId\<close>, \<^verbatim>\<open>escrow.transactionId\<close>,
  \<^verbatim>\<open>transaction.propertyId\<close>) and the document lacks the field, the key is
  \<^verbatim>\<open>undefined\<close>; nothing is ever stored under it, since every \<^verbatim>\<open>putState\<close> of
  the chaincode is under a string, and the read is taken to find nothing.
\<close>

definition getState :: "ledger \<Rightarrow> string \<Rightarrow> doc option" where
  "getState s k = s k"

definition getStateAt :: "ledger \<Rightarrow> string option \<Rightarrow> (string \<times> doc) option" where
  "getStateAt s key =
     (case key of
        None \<Rightarrow> None
      | Some k \<Rightarrow> (case getState s k of None \<Rightarrow> None | Some d \<Rightarrow> Some (k, d)))"

definition putState :: "ledger \<Rightarrow> string \<Rightarrow> doc \<Rightarrow> ledger" where
  "putState s k d = s(k \<mapsto> d)"

text \<open>A JSON object with the four fields that every contract writes and no other.\<close>

definition object :: "string \<Rightarrow> status \<Rightarrow> string \<Rightarrow> doc" where
  "object ty st now =
     \<lparr>docType = ty, status = st, createdAt = now, updatedAt = now,
      propertyId = None, address = None, ownerId = None, details = None, history = None,
      transactionId = None, sellerId = None, buyerId = None, price = None,
      paymentMethod = None, tx_notes = None, cancellationReason = None, escrowId = None,
      conditions = None, payments = None, documents = None, conditions_met = None,
      verifications = None\<rparr>"

text \<open>\<^verbatim>\<open>{ ...a, ...b }\<close>: the keys of \<open>a\<close>, each overwritten by \<open>b\<close>, then the new keys of \<open>b\<close>.\<close>

definition spread :: "json option \<Rightarrow> json \<Rightarrow> json" where
  "spread a b =
     fold (\<lambda>(k, v) acc. AList.update k v acc) b (case a of None \<Rightarrow> [] | Some x \<Rightarrow> x)"

text \<open>\<^verbatim>\<open>reason || 'No reason provided'\<close> and \<^verbatim>\<open>notes || ''\<close>: the empty string is falsy.\<close>

definition or_default :: "string \<Rightarrow> string \<Rightarrow> string" where
  "or_default x dflt = (if x = [] then dflt else x)"

text \<open>\<^verbatim>\<open>escrow.payments.reduce((sum, p) => sum + p.amount, 0)\<close>\<close>

definition totalPaid :: "payment list \<Rightarrow> rat" where
  "totalPaid ps = foldl (\<lambda>sum p. sum + amount p) 0 ps"

text \<open>\<^verbatim>\<open>Math.abs(totalPaid - escrow.price) < 0.01\<close>; an absent price makes the difference \<^verbatim>\<open>NaN\<close>.\<close>

definition fully_paid :: "payment list \<Rightarrow> rat option \<Rightarrow> bool" where
  "fully_paid ps pr = (case pr of None \<Rightarrow> False | Some x \<Rightarrow> \<bar>totalPaid ps - x\<bar> < 1 / 100)"

text \<open>
  \<^verbatim>\<open>conditions_met\<close> is a JavaScript object, here the list of its own keys with their
  values. \<^verbatim>\<open>k in obj\<close> holds of the own keys and also of the names that every object
  inherits from \<^verbatim>\<open>Object.prototype\<close>. \<^verbatim>\<open>obj[k] = v\<close>, for a boolean \<open>v\<close>, sets an
  own key and adds a missing one, but for the inherited setter \<^verbatim>\<open>__proto__\<close>, which
  ignores a value that is not an object.
\<close>

definition Object_prototype :: "string list" where
  "Object_prototype =
     [''constructor'', ''__defineGetter__'', ''__defineSetter__'', ''hasOwnProperty'',
      ''__lookupGetter__'', ''__lookupSetter__'', ''isPrototypeOf'', ''propertyIsEnumerable'',
      ''toString'', ''valueOf'', ''__proto__'', ''toLocaleString'']"

definition has_property :: "string \<Rightarrow> (string \<times> bool) list \<Rightarrow> bool" where
  "has_property k obj = (k \<in> fst ` set obj \<or> k \<in> set Object_prototype)"

definition assign :: "string \<Rightarrow> bool \<Rightarrow> (string \<times> bool) list \<Rightarrow> (string \<times> bool) list" where
  "assign k v obj =
     (if k = ''__proto__'' \<and> k \<notin> fst ` set obj then obj else AList.update k v obj)"

text \<open>\<^verbatim>\<open>Object.values(escrow.conditions_met).every(met => met === true)\<close>\<close>

definition allConditionsMet :: "(string \<times> bool) list \<Rightarrow> bool" where
  "allConditionsMet cm = list_all snd cm"

section \<open>The property contract\<close>

definition RegisterProperty ::
  "string \<Rightarrow> ledger \<Rightarrow> string \<Rightarrow> string \<Rightarrow> string \<Rightarrow> json option \<Rightarrow> outcome" where
  "RegisterProperty now s pid addr owner dtl =
     (case dtl of
        None \<Rightarrow> (Inl SyntaxError, s)
      | Some dj \<Rightarrow>
          let property = (object ''property'' active now)
                \<lparr>propertyId := Some pid, address := Some addr, ownerId := Some owner,
                 details := Some dj, history := Some []\<rparr>
          in (Inr property, putState s pid property))"

definition UpdateProperty :: "string \<Rightarrow> ledger \<Rightarrow> string \<Rightarrow> json option \<Rightarrow> outcome" where
  "UpdateProperty now s pid newDetails =
     (case getState s pid of
        None \<Rightarrow> (Inl NotFoundError, s)
      | Some property \<Rightarrow>
          (case newDetails of
             None \<Rightarrow> (Inl SyntaxError, s)
           | Some updatedDetails \<Rightarrow>
               let property' = property
                     \<lparr>details := Some (spread (details property) updatedDetails),
                      updatedAt := now\<rparr>
               in (Inr property', putState s pid property')))"

definition TransferProperty ::
  "string \<Rightarrow> ledger \<Rightarrow> string \<Rightarrow> string \<Rightarrow> string \<Rightarrow> json option \<Rightarrow> outcome" where
  "TransferProperty now s pid currentOwnerId newOwnerId transactionDetails =
     (case getState s pid of
        None \<Rightarrow> (Inl NotFoundError, s)
      | Some property \<Rightarrow>
          if ownerId property \<noteq> Some currentOwnerId then (Inl OwnershipMismatchError, s)
          else
            (case transactionDetails of
               None \<Rightarrow> (Inl SyntaxError, s)
             | Some dj \<Rightarrow>
                 (case history property of
                    None \<Rightarrow> (Inl TypeError, s)
                  | Some h \<Rightarrow>
                      let transaction =
                            \<lparr>h_type = ''transfer'', h_transactionId = None, h_escrowId = None,
                             fromOwnerId = Some currentOwnerId, toOwnerId = Some newOwnerId,
                             h_price = None, h_paymentMethod = None, h_details = Some dj,
                             h_timestamp = now\<rparr>;
                          property' = property
                            \<lparr>history := Some (h @ [transaction]), ownerId := Some newOwnerId,
                             updatedAt := now\<rparr>
                      in (Inr property', putState s pid property'))))"

section \<open>The transaction contract\<close>

definition CreateTransaction ::
  "string \<Rightarrow> ledger \<Rightarrow> string \<Rightarrow> string \<Rightarrow> string \<Rightarrow> string \<Rightarrow> rat \<Rightarrow> string \<Rightarrow> string
     \<Rightarrow> outcome" where
  "CreateTransaction now s tid pid seller buyer pr meth nts =
     (case getState s pid of
        None \<Rightarrow> (Inl NotFoundError, s)
      | Some property \<Rightarrow>
          if ownerId property \<noteq> Some seller then (Inl OwnershipMismatchError, s)
          else
            let transaction = (object ''transaction'' pending now)
                  \<lparr>transactionId := Some tid, propertyId := Some pid, sellerId := Some seller,
                   buyerId := Some buyer, price := Some pr, paymentMethod := Some meth,
                   tx_notes := Some (or_default nts [])\<rparr>
            in (Inr transaction, putState s tid transaction))"

definition CompleteTransaction :: "string \<Rightarrow> ledger \<Rightarrow> string \<Rightarrow> outcome" where
  "CompleteTransaction now s tid =
     (case getState s tid of
        None \<Rightarrow> (Inl NotFoundError, s)
      | Some transaction \<Rightarrow>
          if status transaction \<noteq> pending then (Inl InvalidStateError, s)
          else
            (case getStateAt s (propertyId transaction) of
               None \<Rightarrow> (Inl NotFoundError, s)
             | Some (pid, property) \<Rightarrow>
                 if ownerId property \<noteq> sellerId transaction
                 then (Inl OwnershipMismatchError, s)
                 else
                   (case history property of
                      None \<Rightarrow> (Inl TypeError, s)
                    | Some h \<Rightarrow>
                        let transferRecord =
                              \<lparr>h_type = ''transfer'',
                               h_transactionId = transactionId transaction,
                               h_escrowId = None,
                               fromOwnerId = sellerId transaction,
                               toOwnerId = buyerId transaction,
                               h_price = price transaction,
                               h_paymentMethod = paymentMethod transaction,
                               h_details = None, h_timestamp = now\<rparr>;
                            property' = property
                              \<lparr>history := Some (h @ [transferRecord]),
                               ownerId := buyerId transaction, updatedAt := now\<rparr>;
                            transaction' = transaction\<lparr>status := completed, updatedAt := now\<rparr>;
                            s1 = putState s pid property';
                            s2 = putState s1 tid transaction'
                        in (Inr transaction', s2))))"

definition CancelTransaction :: "string \<Rightarrow> ledger \<Rightarrow> string \<Rightarrow> string \<Rightarrow> outcome" where
  "CancelTransaction now s tid reason =
     (case getState s tid of
        None \<Rightarrow> (Inl NotFoundError, s)
      | Some transaction \<Rightarrow>
          if status transaction \<noteq> pending then (Inl InvalidStateError, s)
          else
            let transaction' = transaction
                  \<lparr>status := cancelled,
                   cancellationReason := Some (or_default reason ''No reason provided''),
                   updatedAt := now\<rparr>
            in (Inr transaction', putState s tid transaction'))"

section \<open>The escrow contract\<close>

text \<open>
  \<^verbatim>\<open>for (const condition of conditionsObj) escrow.conditions_met[condition.id] = false\<close>:
  assigning to a key that is already there keeps its place.
\<close>

definition init_conditions_met :: "condition list \<Rightarrow> (string \<times> bool) list" where
  "init_conditions_met cs = fold (\<lambda>c acc. assign (cond_id c) False acc) cs []"

definition CreateEscrow ::
  "string \<Rightarrow> ledger \<Rightarrow> string \<Rightarrow> string \<Rightarrow> string \<Rightarrow> string \<Rightarrow> string \<Rightarrow> rat
     \<Rightarrow> condition list option \<Rightarrow> outcome" where
  "CreateEscrow now s eid tid pid seller buyer pr conds =
     (case getState s tid of
        None \<Rightarrow> (Inl NotFoundError, s)
      | Some _ \<Rightarrow>
          (case getState s pid of
             None \<Rightarrow> (Inl NotFoundError, s)
           | Some property \<Rightarrow>
               if ownerId property \<noteq> Some seller then (Inl OwnershipMismatchError, s)
               else
                 (case conds of
                    None \<Rightarrow> (Inl SyntaxError, s)
                  | Some conditionsObj \<Rightarrow>
                      let escrow = (object ''escrow'' created now)
                            \<lparr>escrowId := Some eid, transactionId := Some tid,
                             propertyId := Some pid, sellerId := Some seller,
                             buyerId := Some buyer, price := Some pr,
                             conditions := Some conditionsObj, payments := Some [],
                             documents := Some [],
                             conditions_met := Some (init_conditions_met conditionsObj)\<rparr>
                      in (Inr escrow, putState s eid escrow))))"

definition AddPayment ::
  "string \<Rightarrow> ledger \<Rightarrow> string \<Rightarrow> string \<Rightarrow> rat \<Rightarrow> string \<Rightarrow> json option \<Rightarrow> outcome" where
  "AddPayment now s eid payId amt meth paymentDetails =
     (case getState s eid of
        None \<Rightarrow> (Inl NotFoundError, s)
      | Some escrow \<Rightarrow>
          if status escrow \<noteq> created \<and> status escrow \<noteq> in_progress
          then (Inl InvalidStateError, s)
          else
            (case paymentDetails of
               None \<Rightarrow> (Inl SyntaxError, s)
             | Some dj \<Rightarrow>
                 (case payments escrow of
                    None \<Rightarrow> (Inl TypeError, s)
                  | Some ps \<Rightarrow>
                      let payment =
                            \<lparr>paymentId = payId, amount = amt, pay_method = meth,
                             pay_details = dj, pay_timestamp = now\<rparr>;
                          ps' = ps @ [payment];
                          total = totalPaid ps';
                          escrow' = escrow
                            \<lparr>payments := Some ps',
                             status := (if status escrow = created \<and> total > 0
                                        then in_progress else status escrow),
                             updatedAt := now\<rparr>
                      in (Inr escrow', putState s eid escrow'))))"

definition AddDocument ::
  "string \<Rightarrow> ledger \<Rightarrow> string \<Rightarrow> string \<Rightarrow> string \<Rightarrow> string \<Rightarrow> json option \<Rightarrow> outcome" where
  "AddDocument now s eid docId dtype dhash documentMetadata =
     (case getState s eid of
        None \<Rightarrow> (Inl NotFoundError, s)
      | Some escrow \<Rightarrow>
          if status escrow \<noteq> created \<and> status escrow \<noteq> in_progress
          then (Inl InvalidStateError, s)
          else
            (case documentMetadata of
               None \<Rightarrow> (Inl SyntaxError, s)
             | Some mj \<Rightarrow>
                 (case documents escrow of
                    None \<Rightarrow> (Inl TypeError, s)
                  | Some ds \<Rightarrow>
                      let document =
                            \<lparr>documentId = docId, documentType = dtype, documentHash = dhash,
                             metadata = mj, doc_timestamp = now\<rparr>;
                          escrow' = escrow\<lparr>documents := Some (ds @ [document]), updatedAt := now\<rparr>
                      in (Inr escrow', putState s eid escrow'))))"

definition MarkConditionMet ::
  "string \<Rightarrow> ledger \<Rightarrow> string \<Rightarrow> string \<Rightarrow> string \<Rightarrow> json option \<Rightarrow> outcome" where
  "MarkConditionMet now s eid cid verifier verificationDetails =
     (case getState s eid of
        None \<Rightarrow> (Inl NotFoundError, s)
      | Some escrow \<Rightarrow>
          if status escrow \<noteq> created \<and> status escrow \<noteq> in_progress
          then (Inl InvalidStateError, s)
          else
            (case conditions_met escrow of
               None \<Rightarrow> (Inl TypeError, s)
             | Some cm \<Rightarrow>
                 if \<not> has_property cid cm then (Inl UnknownConditionError, s)
                 else
                   (case verificationDetails of
                      None \<Rightarrow> (Inl SyntaxError, s)
                    | Some vj \<Rightarrow>
                        (case payments escrow of
                           None \<Rightarrow> (Inl TypeError, s)
                         | Some ps \<Rightarrow>
                             let cm' = assign cid True cm;
                                 verification =
                                   \<lparr>conditionId = cid, verifierId = verifier,
                                    ver_details = vj, ver_timestamp = now\<rparr>;
                                 vs = (case verifications escrow of
                                         None \<Rightarrow> [] | Some v \<Rightarrow> v);
                                 escrow' = escrow
                                   \<lparr>conditions_met := Some cm',
                                    verifications := Some (vs @ [verification]),
                                    status := (if allConditionsMet cm'
                                                  \<and> fully_paid ps (price escrow)
                                               then ready_for_completion
                                               else status escrow),
                                    updatedAt := now\<rparr>
                             in (Inr escrow', putState s eid escrow')))))"

text \<open>
  The three writes of \<^verbatim>\<open>CompleteEscrow\<close> are made in the order of the source, each under
  the key the source uses, so that a later write replaces an earlier one under the same key.
\<close>

definition CompleteEscrow :: "string \<Rightarrow> ledger \<Rightarrow> string \<Rightarrow> outcome" where
  "CompleteEscrow now s eid =
     (case getState s eid of
        None \<Rightarrow> (Inl NotFoundError, s)
      | Some escrow \<Rightarrow>
          if status escrow \<noteq> ready_for_completion then (Inl InvalidStateError, s)
          else
            (case getStateAt s (propertyId escrow) of
               None \<Rightarrow> (Inl NotFoundError, s)
             | Some (pid, property) \<Rightarrow>
                 if ownerId property \<noteq> sellerId escrow then (Inl OwnershipMismatchError, s)
                 else
                   (case getStateAt s (transactionId escrow) of
                      None \<Rightarrow> (Inl NotFoundError, s)
                    | Some (tid, transaction) \<Rightarrow>
                        (case history property of
                           None \<Rightarrow> (Inl TypeError, s)
                         | Some h \<Rightarrow>
                             let transferRecord =
                                   \<lparr>h_type = ''transfer'',
                                    h_transactionId = transactionId escrow,
                                    h_escrowId = escrowId escrow,
                                    fromOwnerId = sellerId escrow,
                                    toOwnerId = buyerId escrow,
                                    h_price = price escrow,
                                    h_paymentMethod = None, h_details = None,
                                    h_timestamp = now\<rparr>;
                                 property' = property
                                   \<lparr>history := Some (h @ [transferRecord]),
                                    ownerId := buyerId escrow, updatedAt := now\<rparr>;
                                 transaction' = transaction
                                   \<lparr>status := completed, updatedAt := now\<rparr>;
                                 escrow' = escrow\<lparr>status := completed, updatedAt := now\<rparr>;
                                 s1 = putState s pid property';
                                 s2 = putState s1 tid transaction';
                                 s3 = putState s2 eid escrow'
                             in (Inr escrow', s3)))))"

text \<open>
  \<^verbatim>\<open>CancelEscrow\<close> writes the transaction only when it is there and not completed; a
  missing transaction is passed over without an error.
\<close>

definition CancelEscrow :: "string \<Rightarrow> ledger \<Rightarrow> string \<Rightarrow> string \<Rightarrow> outcome" where
  "CancelEscrow now s eid reason =
     (case getState s eid of
        None \<Rightarrow> (Inl NotFoundError, s)
      | Some escrow \<Rightarrow>
          if status escrow = completed \<or> status escrow = cancelled
          then (Inl InvalidStateError, s)
          else
            let escrow' = escrow
                  \<lparr>status := cancelled,
                   cancellationReason := Some (or_default reason ''No reason provided''),
                   updatedAt := now\<rparr>;
                s1 = (case getStateAt s (transactionId escrow) of
                        None \<Rightarrow> s
                      | Some (tid, transaction) \<Rightarrow>
                          if status transaction \<noteq> completed
                          then putState s tid
                                 (transaction\<lparr>status := cancelled, updatedAt := now\<rparr>)
                          else s)
            in (Inr escrow', putState s1 eid escrow'))"

section \<open>Invocations and reachable ledgers\<close>

text \<open>
  One invocation is one operation of one of the three contracts with its arguments. The
  ledger keeps the writes of an invocation that returned and drops those of one that threw.
\<close>

datatype invocation =
    RegisterPropertyOp string string string "json option"
  | UpdatePropertyOp string "json option"
  | TransferPropertyOp string string string "json option"
  | CreateTransactionOp string string string string rat string string
  | CompleteTransactionOp string
  | CancelTransactionOp string string
  | CreateEscrowOp string string string string string rat "condition list option"
  | AddPaymentOp string string rat string "json option"
  | AddDocumentOp string string string string "json option"
  | MarkConditionMetOp string string string "json option"
  | CompleteEscrowOp string
  | CancelEscrowOp string string

fun invoke :: "string \<Rightarrow> ledger \<Rightarrow> invocation \<Rightarrow> outcome" where
  "invoke now s (RegisterPropertyOp pid addr owner dtl) = RegisterProperty now s pid addr owner dtl"
| "invoke now s (UpdatePropertyOp pid dtl) = UpdateProperty now s pid dtl"
| "invoke now s (TransferPropertyOp pid cur new dtl) = TransferProperty now s pid cur new dtl"
| "invoke now s (CreateTransactionOp tid pid seller buyer pr meth nts) =
     CreateTransaction now s tid pid seller buyer pr meth nts"
| "invoke now s (CompleteTransactionOp tid) = CompleteTransaction now s tid"
| "invoke now s (CancelTransactionOp tid reason) = CancelTransaction now s tid reason"
| "invoke now s (CreateEscrowOp eid tid pid seller buyer pr conds) =
     CreateEscrow now s eid tid pid seller buyer pr conds"
| "invoke now s (AddPaymentOp eid payId amt meth dtl) = AddPayment now s eid payId amt meth dtl"
| "invoke now s (AddDocumentOp eid docId dtype dhash meta) =
     AddDocument now s eid docId dtype dhash meta"
| "invoke now s (MarkConditionMetOp eid cid verifier dtl) =
     MarkConditionMet now s eid cid verifier dtl"
| "invoke now s (CompleteEscrowOp eid) = CompleteEscrow now s eid"
| "invoke now s (CancelEscrowOp eid reason) = CancelEscrow now s eid reason"

text \<open>
  Beside the ledger runs a record of who registered each property id last: the owner
  argument of the latest \<^verbatim>\<open>RegisterProperty\<close> that returned for it.
\<close>

type_synonym registrants = "string \<Rightarrow> string option"

fun registered :: "invocation \<Rightarrow> registrants \<Rightarrow> registrants" where
  "registered (RegisterPropertyOp pid addr owner dtl) g = g(pid \<mapsto> owner)"
| "registered _ g = g"

text \<open>
  The ledgers that the operations can build from the empty ledger. \<open>G\<close> says which
  invocations the callers make in which ledger; with \<open>anything\<close> they make them all.
\<close>

inductive reachable ::
  "(ledger \<Rightarrow> invocation \<Rightarrow> bool) \<Rightarrow> ledger \<Rightarrow> registrants \<Rightarrow> bool"
  for G :: "ledger \<Rightarrow> invocation \<Rightarrow> bool" where
    genesis: "reachable G Map.empty Map.empty"
  | invoked: "reachable G s g \<Longrightarrow> G s call \<Longrightarrow> invoke now s call = (Inr r, s')
                \<Longrightarrow> reachable G s' (registered call g)"

definition anything :: "ledger \<Rightarrow> invocation \<Rightarrow> bool" where
  "anything s call = True"


text \<open>
  The ledger and the registrants after a list of invocations, each with its time; an
  invocation that throws leaves both as they were. \<open>guarded\<close> says that every invocation
  of the list is one the callers make.
\<close>

fun run :: "ledger \<times> registrants \<Rightarrow> (string \<times> invocation) list \<Rightarrow> ledger \<times> registrants" where
  "run \<sigma> [] = \<sigma>"
| "run \<sigma> ((now, call) # rest) =
     (case invoke now (fst \<sigma>) call of
        (Inl _, _) \<Rightarrow> run \<sigma> rest
      | (Inr _, s') \<Rightarrow> run (s', registered call (snd \<sigma>)) rest)"

fun guarded ::
  "(ledger \<Rightarrow> invocation \<Rightarrow> bool) \<Rightarrow> ledger \<times> registrants \<Rightarrow> (string \<times> invocation) list \<Rightarrow> bool"
  where
  "guarded G \<sigma> [] = True"
| "guarded G \<sigma> ((now, call) # rest) =
     (G (fst \<sigma>) call \<and> guarded G (run \<sigma> [(now, call)]) rest)"

definition genesis_ledger :: "ledger \<times> registrants" where
  "genesis_ledger = (Map.empty, Map.empty)"


definition owner_by_history :: "string option \<Rightarrow> doc \<Rightarrow> bool" where
  "owner_by_history registrant d =
     (case history d of
        None \<Rightarrow> False
      | Some h \<Rightarrow>
          if h = [] then registrant \<noteq> None \<and> ownerId d = registrant
          else ownerId d = toOwnerId (last h))"

definition owner_is_last_recipient :: "ledger \<Rightarrow> registrants \<Rightarrow> bool" where
  "owner_is_last_recipient s g =
     (\<forall>k d. s k = Some d \<longrightarrow> docType d = ''property'' \<longrightarrow> owner_by_history (g k) d)"

section \<open>Sample runs\<close>

text \<open>
  The sale of the specification's example: a price of 120000, paid as 70000 and 50000, and
  one condition \<open>c1\<close>. \<open>sale_upto n\<close> is the ledger after the first \<open>n\<close> invocations.
\<close>

definition sale :: "(string \<times> invocation) list" where
  "sale =
     [(''t0'', RegisterPropertyOp ''p1'' ''1 Piata Unirii'' ''alice'' (Some [])),
      (''t1'', CreateTransactionOp ''tx1'' ''p1'' ''alice'' ''bob'' 120000 ''wire'' []),
      (''t2'', CreateEscrowOp ''e1'' ''tx1'' ''p1'' ''alice'' ''bob'' 120000
                 (Some [\<lparr>cond_id = ''c1'', cond_body = []\<rparr>])),
      (''t3'', AddPaymentOp ''e1'' ''pay1'' 70000 ''wire'' (Some [])),
      (''t4'', AddPaymentOp ''e1'' ''pay2'' 50000 ''wire'' (Some [])),
      (''t5'', MarkConditionMetOp ''e1'' ''c1'' ''notary'' (Some [])),
      (''t6'', CompleteEscrowOp ''e1'')]"

definition sale_upto :: "nat \<Rightarrow> ledger \<times> registrants" where
  "sale_upto n = run genesis_ledger (take n sale)"

text \<open>
  An escrow created with the property's own id as its transaction id, paid in full and
  with its condition met: \<^verbatim>\<open>CreateEscrow\<close> only asks that something is stored under the
  transaction id.
\<close>

definition aliased_sale :: "(string \<times> invocation) list" where
  "aliased_sale =
     [(''t0'', RegisterPropertyOp ''p1'' ''1 Piata Unirii'' ''alice'' (Some [])),
      (''t1'', CreateEscrowOp ''e1'' ''p1'' ''p1'' ''alice'' ''bob'' 100
                 (Some [\<lparr>cond_id = ''c1'', cond_body = []\<rparr>])),
      (''t2'', AddPaymentOp ''e1'' ''pay1'' 100 ''wire'' (Some [])),
      (''t3'', MarkConditionMetOp ''e1'' ''c1'' ''notary'' (Some []))]"

definition aliased_ledger :: "ledger \<times> registrants" where
  "aliased_ledger = run genesis_ledger aliased_sale"



section \<open>What keeps escrows sound\<close>





section \<open>What a returning operation has done\<close>

text \<open>
  One lemma for each operation: when it returns, which checks it has passed and which
  ledger it leaves.
\<close>

lemmas store_defs = getState_def getStateAt_def putState_def

lemma RegisterProperty_returns:
  assumes "RegisterProperty now s pid addr owner dtl = (Inr r, s')"
  shows "\<exists>dj. dtl = Some dj \<and> s' = s(pid \<mapsto> r)
     \<and> r = (object ''property'' active now)
                \<lparr>propertyId := Some pid, address := Some addr, ownerId := Some owner,
                 details := Some dj, history := Some []\<rparr>"
  using assms by (auto simp: RegisterProperty_def store_defs Let_def split: option.split_asm)

lemma UpdateProperty_returns:
  assumes "UpdateProperty now s pid dtl = (Inr r, s')"
  shows "\<exists>p dj. s pid = Some p \<and> dtl = Some dj \<and> s' = s(pid \<mapsto> r)
    \<and> r = p\<lparr>details := Some (spread (details p) dj), updatedAt := now\<rparr>"
  using assms by (auto simp: UpdateProperty_def store_defs Let_def split: option.split_asm)

lemma TransferProperty_returns:
  assumes "TransferProperty now s pid cur new dtl = (Inr r, s')"
  shows "\<exists>p h dj. s pid = Some p \<and> ownerId p = Some cur \<and> dtl = Some dj \<and> history p = Some h
    \<and> s' = s(pid \<mapsto> r)
    \<and> r = p\<lparr>history := Some (h @ [\<lparr>h_type = ''transfer'', h_transactionId = None, h_escrowId = None,
                             fromOwnerId = Some cur, toOwnerId = Some new,
                             h_price = None, h_paymentMethod = None, h_details = Some dj,
                             h_timestamp = now\<rparr>]), ownerId := Some new, updatedAt := now\<rparr>"
  using assms by (auto simp: TransferProperty_def store_defs Let_def split: option.split_asm if_split_asm)

lemma CreateTransaction_returns:
  assumes "CreateTransaction now s tid pid seller buyer pr meth nts = (Inr r, s')"
  shows "\<exists>p. s pid = Some p \<and> ownerId p = Some seller \<and> s' = s(tid \<mapsto> r)
    \<and> r = (object ''transaction'' pending now)
                  \<lparr>transactionId := Some tid, propertyId := Some pid, sellerId := Some seller,
                   buyerId := Some buyer, price := Some pr, paymentMethod := Some meth,
                   tx_notes := Some (or_default nts [])\<rparr>"
  using assms by (auto simp: CreateTransaction_def store_defs Let_def split: option.split_asm if_split_asm)

lemma CompleteTransaction_returns:
  assumes "CompleteTransaction now s tid = (Inr r, s')"
  shows "\<exists>t pid p h. s tid = Some t \<and> status t = pending \<and> propertyId t = Some pid \<and> s pid = Some p
    \<and> ownerId p = sellerId t \<and> history p = Some h
    \<and> r = t\<lparr>status := completed, updatedAt := now\<rparr>
    \<and> s' = s(pid \<mapsto> p\<lparr>history := Some (h @ [\<lparr>h_type = ''transfer'',
                               h_transactionId = transactionId t,
                               h_escrowId = None,
                               fromOwnerId = sellerId t,
                               toOwnerId = buyerId t,
                               h_price = price t,
                               h_paymentMethod = paymentMethod t,
                               h_details = None, h_timestamp = now\<rparr>]), ownerId := buyerId t, updatedAt := now\<rparr>,
                tid \<mapsto> r)"
  using assms by (auto simp: CompleteTransaction_def store_defs Let_def split: option.split_asm if_split_asm prod.split_asm)

lemma CancelTransaction_returns:
  assumes "CancelTransaction now s tid reason = (Inr r, s')"
  shows "\<exists>t. s tid = Some t \<and> status t = pending \<and> s' = s(tid \<mapsto> r)
    \<and> r = t\<lparr>status := cancelled, cancellationReason := Some (or_default reason ''No reason provided''), updatedAt := now\<rparr>"
  using assms by (auto simp: CancelTransaction_def store_defs Let_def split: option.split_asm if_split_asm)

lemma CreateEscrow_returns:
  assumes "CreateEscrow now s eid tid pid seller buyer pr conds = (Inr r, s')"
  shows "\<exists>t p cs. s tid = Some t \<and> s pid = Some p \<and> ownerId p = Some seller \<and> conds = Some cs
    \<and> s' = s(eid \<mapsto> r)
    \<and> r = (object ''escrow'' created now)
                            \<lparr>escrowId := Some eid, transactionId := Some tid,
                             propertyId := Some pid, sellerId := Some seller,
                             buyerId := Some buyer, price := Some pr,
                             conditions := Some cs, payments := Some [],
                             documents := Some [],
                             conditions_met := Some (init_conditions_met cs)\<rparr>"
  using assms by (auto simp: CreateEscrow_def store_defs Let_def split: option.split_asm if_split_asm)

lemma AddPayment_returns:
  assumes "AddPayment now s eid payId amt meth dtl = (Inr r, s')"
  shows "\<exists>e ps dj. s eid = Some e \<and> (status e = created \<or> status e = in_progress)
    \<and> payments e = Some ps \<and> dtl = Some dj \<and> s' = s(eid \<mapsto> r)
    \<and> r = e\<lparr>payments := Some (ps @ [\<lparr>paymentId = payId, amount = amt, pay_method = meth,
                             pay_details = dj, pay_timestamp = now\<rparr>]),
            status := (if status e = created \<and> 0 < totalPaid (ps @ [\<lparr>paymentId = payId, amount = amt, pay_method = meth,
                             pay_details = dj, pay_timestamp = now\<rparr>]) then in_progress else status e),
            updatedAt := now\<rparr>"
  using assms by (auto simp: AddPayment_def store_defs Let_def split: option.split_asm if_split_asm)

lemma AddDocument_returns:
  assumes "AddDocument now s eid docId dtype dhash meta = (Inr r, s')"
  shows "\<exists>e ds mj. s eid = Some e \<and> (status e = created \<or> status e = in_progress)
    \<and> documents e = Some ds \<and> meta = Some mj \<and> s' = s(eid \<mapsto> r)
    \<and> r = e\<lparr>documents := Some (ds @ [\<lparr>documentId = docId, documentType = dtype, documentHash = dhash,
                             metadata = mj, doc_timestamp = now\<rparr>]), updatedAt := now\<rparr>"
  using assms by (auto simp: AddDocument_def store_defs Let_def split: option.split_asm if_split_asm)

lemma MarkConditionMet_returns:
  assumes "MarkConditionMet now s eid cid verifier dtl = (Inr r, s')"
  shows "\<exists>e cm vj ps. s eid = Some e \<and> (status e = created \<or> status e = in_progress)
    \<and> conditions_met e = Some cm \<and> has_property cid cm \<and> dtl = Some vj
    \<and> payments e = Some ps \<and> s' = s(eid \<mapsto> r)
    \<and> r = e\<lparr>conditions_met := Some (assign cid True cm),
            verifications := Some ((case verifications e of None \<Rightarrow> [] | Some v \<Rightarrow> v)
               @ [\<lparr>conditionId = cid, verifierId = verifier, ver_details = vj, ver_timestamp = now\<rparr>]),
            status := (if allConditionsMet (assign cid True cm) \<and> fully_paid ps (price e)
                       then ready_for_completion else status e),
            updatedAt := now\<rparr>"
  using assms by (auto simp: MarkConditionMet_def store_defs Let_def split: option.split_asm if_split_asm)

lemma CompleteEscrow_returns:
  assumes "CompleteEscrow now s eid = (Inr r, s')"
  shows "\<exists>e pid p tid t h. s eid = Some e \<and> status e = ready_for_completion
    \<and> propertyId e = Some pid \<and> s pid = Some p \<and> ownerId p = sellerId e
    \<and> transactionId e = Some tid \<and> s tid = Some t \<and> history p = Some h
    \<and> r = e\<lparr>status := completed, updatedAt := now\<rparr>
    \<and> s' = s(pid \<mapsto> p\<lparr>history := Some (h @ [\<lparr>h_type = ''transfer'',
                                    h_transactionId = transactionId e,
                                    h_escrowId = escrowId e,
                                    fromOwnerId = sellerId e,
                                    toOwnerId = buyerId e,
                                    h_price = price e,
                                    h_paymentMethod = None, h_details = None,
                                    h_timestamp = now\<rparr>]), ownerId := buyerId e, updatedAt := now\<rparr>,
                tid \<mapsto> t\<lparr>status := completed, updatedAt := now\<rparr>,
                eid \<mapsto> r)"
  using assms by (auto simp: CompleteEscrow_def store_defs Let_def split: option.split_asm if_split_asm prod.split_asm)

lemma CancelEscrow_returns:
  assumes "CancelEscrow now s eid reason = (Inr r, s')"
  shows "\<exists>e. s eid = Some e \<and> status e \<noteq> completed \<and> status e \<noteq> cancelled
    \<and> r = e\<lparr>status := cancelled, cancellationReason := Some (or_default reason ''No reason provided''), updatedAt := now\<rparr>
    \<and> (s' = s(eid \<mapsto> r)
       \<or> (\<exists>tid t. transactionId e = Some tid \<and> s tid = Some t \<and> status t \<noteq> completed \<and>
             s' = s(tid \<mapsto> t\<lparr>status := cancelled, updatedAt := now\<rparr>, eid \<mapsto> r)))"
  using assms by (auto simp: CancelEscrow_def store_defs Let_def split: option.split_asm if_split_asm prod.split_asm)

section \<open>Runs and reachable ledgers\<close>

text \<open>A run of invocations that the callers make leads from a reachable ledger to a reachable one.\<close>

lemma run_Cons: "run \<sigma> (c # cs) = run (run \<sigma> [c]) cs"
  by (cases c) (simp split: prod.split sum.split)

lemma reachable_run1:
  assumes "reachable G (fst \<sigma>) (snd \<sigma>)" and "G (fst \<sigma>) call"
  shows "reachable G (fst (run \<sigma> [(now, call)])) (snd (run \<sigma> [(now, call)]))"
proof (cases "invoke now (fst \<sigma>) call")
  case (Pair res s')
  show ?thesis
  proof (cases res)
    case (Inl err)
    with Pair assms show ?thesis by simp
  next
    case (Inr r)
    with Pair assms reachable.invoked[of G "fst \<sigma>" "snd \<sigma>" call now r s'] show ?thesis by simp
  qed
qed

lemma reachable_run:
  assumes "reachable G (fst \<sigma>) (snd \<sigma>)" and "guarded G \<sigma> cs"
  shows "reachable G (fst (run \<sigma> cs)) (snd (run \<sigma> cs))"
  using assms
proof (induction cs arbitrary: \<sigma>)
  case Nil
  then show ?case by simp
next
  case (Cons c cs)
  obtain now call where c: "c = (now, call)" by (cases c)
  from Cons.prems c have g: "G (fst \<sigma>) call" and rest: "guarded G (run \<sigma> [(now, call)]) cs"
    by simp_all
  from Cons.prems(1) g have "reachable G (fst (run \<sigma> [(now, call)])) (snd (run \<sigma> [(now, call)]))"
    by (rule reachable_run1)
  from Cons.IH[OF this rest] show ?case
    unfolding c run_Cons[of \<sigma> "(now, call)" cs] .
qed

lemma reachable_genesis: "reachable G (fst genesis_ledger) (snd genesis_ledger)"
  by (simp add: genesis_ledger_def reachable.genesis)

lemma guarded_anything: "guarded anything \<sigma> cs"
proof (induction cs arbitrary: \<sigma>)
  case Nil
  show ?case by simp
next
  case (Cons c cs)
  obtain now call where "c = (now, call)" by (cases c)
  with Cons.IH[of "run \<sigma> [(now, call)]"] show ?case
    by (simp add: anything_def del: run.simps)
qed

lemmas op_defs = RegisterProperty_def UpdateProperty_def TransferProperty_def
        CreateTransaction_def CompleteTransaction_def CancelTransaction_def CreateEscrow_def
   AddPayment_def AddDocument_def MarkConditionMet_def CompleteEscrow_def CancelEscrow_def
  getState_def getStateAt_def putState_def

lemmas eval_defs = op_defs object_def or_default_def totalPaid_def fully_paid_def allConditionsMet_def
  init_conditions_met_def has_property_def assign_def Object_prototype_def genesis_ledger_def
  Let_def


section \<open>Completing an escrow\<close>

text \<open>
  Claim C1, as amended. Let \<open>e\<close> be the document stored under \<open>eid\<close>.
  \<^verbatim>\<open>CompleteEscrow(eid)\<close> fails with \<open>InvalidStateError\<close>, writing nothing, unless the
  status of \<open>e\<close> is \<open>ready_for_completion\<close>. When it is, and the document stored under the
  property id of \<open>e\<close> has an owner other than the seller of \<open>e\<close>, it fails with
  \<open>OwnershipMismatchError\<close>, writing nothing. When the owner is the seller, the property has a
  history and something is stored under the transaction id of \<open>e\<close>, it returns \<open>e\<close> with status
  \<open>completed\<close>. Whenever it returns, the ledger holds that escrow under \<open>eid\<close> and a document
  of status \<open>completed\<close> under the transaction id. Whenever it returns and the property id
  is a key other than the transaction id and other than \<open>eid\<close>, the property has the buyer
  of \<open>e\<close> as its owner and its history is the old one with exactly one new entry, which
  names the seller, the buyer, the price, the escrow and the transaction.
\<close>

theorem CompleteEscrow_transfers_ownership:
  fixes e :: doc and now :: string
  defines "entry \<equiv> \<lparr>h_type = ''transfer'', h_transactionId = transactionId e,
                     h_escrowId = escrowId e, fromOwnerId = sellerId e, toOwnerId = buyerId e,
                     h_price = price e, h_paymentMethod = None, h_details = None,
                     h_timestamp = now\<rparr>"
  assumes "getState s eid = Some e"
  shows "(status e \<noteq> ready_for_completion \<longrightarrow>
            CompleteEscrow now s eid = (Inl InvalidStateError, s))
       \<and> (status e = ready_for_completion \<and> propertyId e = Some pid \<and> getState s pid = Some p
            \<and> ownerId p \<noteq> sellerId e \<longrightarrow>
            CompleteEscrow now s eid = (Inl OwnershipMismatchError, s))
       \<and> (status e = ready_for_completion \<and> propertyId e = Some pid \<and> getState s pid = Some p
            \<and> ownerId p = sellerId e \<and> history p = Some h
            \<and> transactionId e = Some tid \<and> getState s tid = Some t \<longrightarrow>
            fst (CompleteEscrow now s eid) = Inr (e\<lparr>status := completed, updatedAt := now\<rparr>))
       \<and> (CompleteEscrow now s eid = (Inr r, s') \<and> transactionId e = Some tid \<longrightarrow>
            r = e\<lparr>status := completed, updatedAt := now\<rparr>
            \<and> getState s' eid = Some r
            \<and> map_option status (getState s' tid) = Some completed)
       \<and> (CompleteEscrow now s eid = (Inr r, s') \<and> propertyId e = Some pid
            \<and> transactionId e = Some tid \<and> pid \<noteq> tid \<and> pid \<noteq> eid \<longrightarrow>
            (\<exists>p h. getState s pid = Some p \<and> history p = Some h
               \<and> getState s' pid = Some (p\<lparr>history := Some (h @ [entry]),
                                             ownerId := buyerId e, updatedAt := now\<rparr>)))"
proof -
  have a: "status e \<noteq> ready_for_completion \<longrightarrow>
            CompleteEscrow now s eid = (Inl InvalidStateError, s)"
    using assms(2) by (simp add: CompleteEscrow_def store_defs)
  have b: "status e = ready_for_completion \<and> propertyId e = Some pid \<and> getState s pid = Some p
            \<and> ownerId p \<noteq> sellerId e \<longrightarrow>
            CompleteEscrow now s eid = (Inl OwnershipMismatchError, s)"
    using assms(2) by (simp add: CompleteEscrow_def store_defs)
  have c: "status e = ready_for_completion \<and> propertyId e = Some pid \<and> getState s pid = Some p
            \<and> ownerId p = sellerId e \<and> history p = Some h
            \<and> transactionId e = Some tid \<and> getState s tid = Some t \<longrightarrow>
            fst (CompleteEscrow now s eid) = Inr (e\<lparr>status := completed, updatedAt := now\<rparr>)"
    using assms(2) by (simp add: CompleteEscrow_def store_defs Let_def)
  have d: "CompleteEscrow now s eid = (Inr r, s') \<and> transactionId e = Some tid \<longrightarrow>
            r = e\<lparr>status := completed, updatedAt := now\<rparr>
            \<and> getState s' eid = Some r
            \<and> map_option status (getState s' tid) = Some completed"
  proof
    assume h: "CompleteEscrow now s eid = (Inr r, s') \<and> transactionId e = Some tid"
    with CompleteEscrow_returns[of now s eid r s'] assms(2)
    show "r = e\<lparr>status := completed, updatedAt := now\<rparr>
            \<and> getState s' eid = Some r
            \<and> map_option status (getState s' tid) = Some completed"
      by (auto simp: getState_def)
  qed
  have f: "CompleteEscrow now s eid = (Inr r, s') \<and> propertyId e = Some pid
            \<and> transactionId e = Some tid \<and> pid \<noteq> tid \<and> pid \<noteq> eid \<longrightarrow>
            (\<exists>p h. getState s pid = Some p \<and> history p = Some h
               \<and> getState s' pid = Some (p\<lparr>history := Some (h @ [entry]),
                                             ownerId := buyerId e, updatedAt := now\<rparr>))"
  proof
    assume h: "CompleteEscrow now s eid = (Inr r, s') \<and> propertyId e = Some pid
            \<and> transactionId e = Some tid \<and> pid \<noteq> tid \<and> pid \<noteq> eid"
    with CompleteEscrow_returns[of now s eid r s'] assms(2)
    show "\<exists>p h. getState s pid = Some p \<and> history p = Some h
               \<and> getState s' pid = Some (p\<lparr>history := Some (h @ [entry]),
                                             ownerId := buyerId e, updatedAt := now\<rparr>)"
      unfolding entry_def by (auto simp: getState_def)
  qed
  from a b c d f show ?thesis by blast
qed

text \<open>
  The sale of the example, up to the marking of its condition: completing the escrow makes
  \<open>bob\<close> the owner of \<open>p1\<close>, with one entry in the history, and completes \<open>tx1\<close> and \<open>e1\<close>.
\<close>

theorem CompleteEscrow_transfers_ownership_witness:
  "map_option status (getState (fst (sale_upto 6)) ''e1'') = Some ready_for_completion
   \<and> map_option ownerId (getState (fst (sale_upto 6)) ''p1'') = Some (Some ''alice'')
   \<and> map_sum id status (fst (CompleteEscrow ''t6'' (fst (sale_upto 6)) ''e1'')) = Inr completed
   \<and> map_option (\<lambda>d. (ownerId d, map_option (map toOwnerId) (history d)))
       (getState (snd (CompleteEscrow ''t6'' (fst (sale_upto 6)) ''e1'')) ''p1'')
       = Some (Some ''bob'', Some [Some ''bob''])
   \<and> map_option status (getState (snd (CompleteEscrow ''t6'' (fst (sale_upto 6)) ''e1'')) ''tx1'')
       = Some completed
   \<and> map_option status (getState (snd (CompleteEscrow ''t6'' (fst (sale_upto 6)) ''e1'')) ''e1'')
       = Some completed"
proof -
  let ?s = "fst (sale_upto 6)"
  have "\<exists>d p t. ?s ''e1'' = Some d \<and> status d = ready_for_completion
          \<and> propertyId d = Some ''p1'' \<and> transactionId d = Some ''tx1''
          \<and> sellerId d = Some ''alice'' \<and> buyerId d = Some ''bob''
          \<and> ?s ''p1'' = Some p \<and> ownerId p = Some ''alice'' \<and> history p = Some []
          \<and> ?s ''tx1'' = Some t"
    by (simp add: sale_upto_def sale_def eval_defs)
  then obtain d p t where d: "?s ''e1'' = Some d" "status d = ready_for_completion"
     "propertyId d = Some ''p1''" "transactionId d = Some ''tx1''"
     "sellerId d = Some ''alice''" "buyerId d = Some ''bob''"
     "?s ''p1'' = Some p" "ownerId p = Some ''alice''" "history p = Some []" "?s ''tx1'' = Some t"
    by blast
  then have g: "getState ?s ''e1'' = Some d" by (simp add: getState_def)
  obtain r s' where out: "CompleteEscrow ''t6'' ?s ''e1'' = (r, s')"
    by (cases "CompleteEscrow ''t6'' ?s ''e1''")
  from CompleteEscrow_transfers_ownership[OF g, of "''t6''" "''p1''" p "[]" "''tx1''" t
      "d\<lparr>status := completed, updatedAt := ''t6''\<rparr>" s'] d out
  show ?thesis by (auto simp: getState_def)
qed

text \<open>
  Claim C1 as it was stated, "on success sets the owner of the Property to the buyer and
  appends one entry to its history", fails in a ledger that the operations build: the
  escrow \<open>e1\<close> was created with \<open>p1\<close> both as its property id and as its transaction id.
  \<^verbatim>\<open>CompleteEscrow\<close> reads \<open>p1\<close> twice, writes the property with its new owner under
  \<open>p1\<close> and then, under the same key, the second copy with nothing but the status changed.
  It returns the completed escrow, and \<open>alice\<close> still owns \<open>p1\<close>, whose history is empty.
\<close>

theorem CompleteEscrow_aliased_counterexample:
  "reachable anything (fst aliased_ledger) (snd aliased_ledger)
   \<and> map_option (\<lambda>d. (status d, propertyId d, transactionId d, buyerId d))
       (getState (fst aliased_ledger) ''e1'')
       = Some (ready_for_completion, Some ''p1'', Some ''p1'', Some ''bob'')
   \<and> map_option (\<lambda>d. (ownerId d, history d)) (getState (fst aliased_ledger) ''p1'')
       = Some (Some ''alice'', Some [])
   \<and> map_sum id status (fst (CompleteEscrow ''t4'' (fst aliased_ledger) ''e1'')) = Inr completed
   \<and> map_option (\<lambda>d. (ownerId d, history d))
       (getState (snd (CompleteEscrow ''t4'' (fst aliased_ledger) ''e1'')) ''p1'')
       = Some (Some ''alice'', Some [])"
proof -
  have "reachable anything (fst aliased_ledger) (snd aliased_ledger)"
    unfolding aliased_ledger_def by (rule reachable_run[OF reachable_genesis guarded_anything])
  then show ?thesis
    by (simp add: aliased_ledger_def aliased_sale_def eval_defs)
qed

section \<open>Failing operations\<close>

text \<open>
  Claim C2. An invocation that fails has written nothing: the ledger it leaves, with every
  \<^verbatim>\<open>putState\<close> made before the throw, is the ledger it found. This holds of the six
  escrow operations, \<^verbatim>\<open>CompleteEscrow\<close> and \<^verbatim>\<open>CancelEscrow\<close> among them, and of the
  operations of the other two contracts: each makes all its checks before its first write.
\<close>

theorem failed_invocation_writes_nothing:
  assumes "invoke now s call = (Inl err, s')"
  shows "s' = s"
  using assms
  by (cases call) (auto simp: op_defs Let_def split: option.split_asm if_split_asm prod.split_asm)

text \<open>Completing the escrow of the example before its condition is met fails and writes nothing.\<close>

theorem failed_invocation_writes_nothing_witness:
  "invoke ''t5'' (fst (sale_upto 5)) (CompleteEscrowOp ''e1'')
     = (Inl InvalidStateError, fst (sale_upto 5))
   \<and> snd (invoke ''t5'' (fst (sale_upto 5)) (CompleteEscrowOp ''e1'')) = fst (sale_upto 5)"
proof -
  have f: "fst (invoke ''t5'' (fst (sale_upto 5)) (CompleteEscrowOp ''e1'')) = Inl InvalidStateError"
    by (simp add: sale_upto_def sale_def eval_defs)
  then have "invoke ''t5'' (fst (sale_upto 5)) (CompleteEscrowOp ''e1'')
     = (Inl InvalidStateError, snd (invoke ''t5'' (fst (sale_upto 5)) (CompleteEscrowOp ''e1'')))"
    by (metis prod.collapse)
  from failed_invocation_writes_nothing[OF this] this show ?thesis by simp
qed

section \<open>Registering a property\<close>

text \<open>
  Claim C3, as amended. \<^verbatim>\<open>RegisterProperty(id, address, ownerId, details)\<close> never fails
  with \<open>AlreadyExistsError\<close>. When \<open>details\<close> is JSON it returns, in every ledger, and
  stores under \<open>id\<close> a property with the given owner, an empty history and status
  \<open>active\<close>, in place of whatever \<open>id\<close> held; when \<open>details\<close> is not JSON it fails with
  \<open>SyntaxError\<close> and writes nothing.
\<close>

theorem RegisterProperty_overwrites:
  "RegisterProperty now s pid addr owner (Some dj) =
     (Inr ((object ''property'' active now)
              \<lparr>propertyId := Some pid, address := Some addr, ownerId := Some owner,
               details := Some dj, history := Some []\<rparr>),
      s(pid \<mapsto> (object ''property'' active now)
              \<lparr>propertyId := Some pid, address := Some addr, ownerId := Some owner,
               details := Some dj, history := Some []\<rparr>))
   \<and> RegisterProperty now s pid addr owner None = (Inl SyntaxError, s)
   \<and> fst (RegisterProperty now s pid addr owner dtl) \<noteq> Inl AlreadyExistsError"
  by (cases dtl) (simp_all add: RegisterProperty_def store_defs Let_def)

theorem RegisterProperty_overwrites_witness:
  "map_option ownerId (getState (fst (sale_upto 1)) ''p1'') = Some (Some ''alice'')
   \<and> map_option (\<lambda>d. (ownerId d, history d, status d))
       (getState (snd (RegisterProperty ''t1'' (fst (sale_upto 1)) ''p1'' ''2 Calea Victoriei''
                         ''mallory'' (Some []))) ''p1'')
       = Some (Some ''mallory'', Some [], active)"
  using RegisterProperty_overwrites[of "''t1''" "fst (sale_upto 1)" "''p1''" "''2 Calea Victoriei''"
      "''mallory''" "[]" None]
  by (simp add: getState_def object_def sale_upto_def sale_def eval_defs)

text \<open>
  Claim C3 as it was stated fails: \<open>p1\<close> is registered to \<open>alice\<close>, and registering \<open>p1\<close>
  again returns and leaves \<open>p1\<close> registered to \<open>mallory\<close>.
\<close>

theorem RegisterProperty_duplicate_counterexample:
  "map_option ownerId (getState (fst (sale_upto 1)) ''p1'') = Some (Some ''alice'')
   \<and> fst (RegisterProperty ''t1'' (fst (sale_upto 1)) ''p1'' ''2 Calea Victoriei'' ''mallory'' (Some []))
       \<noteq> Inl AlreadyExistsError
   \<and> map_sum id ownerId
       (fst (RegisterProperty ''t1'' (fst (sale_upto 1)) ''p1'' ''2 Calea Victoriei'' ''mallory'' (Some [])))
       = Inr (Some ''mallory'')
   \<and> map_option ownerId
       (getState (snd (RegisterProperty ''t1'' (fst (sale_upto 1)) ''p1'' ''2 Calea Victoriei''
                         ''mallory'' (Some []))) ''p1'')
       = Some (Some ''mallory'')"
  by (simp add: sale_upto_def sale_def eval_defs)

section \<open>Marking a condition\<close>

text \<open>
  The keys of \<^verbatim>\<open>conditions_met\<close> are the ids of the conditions given to
  \<^verbatim>\<open>CreateEscrow\<close> (but for an id \<^verbatim>\<open>__proto__\<close>), and marking one of them keeps
  the keys.
\<close>

lemma dom_assign: "fst ` set (assign k v obj) = fst ` set obj \<union> ({k} - {''__proto__''})"
  by (auto simp: assign_def dom_update)

lemma init_conditions_met_fold:
  "fst ` set (fold (\<lambda>c acc. assign (cond_id c) False acc) cs acc)
     = fst ` set acc \<union> (cond_id ` set cs - {''__proto__''})"
  by (induction cs arbitrary: acc) (auto simp: dom_assign)

lemma init_conditions_met_keys:
  "fst ` set (init_conditions_met cs) = cond_id ` set cs - {''__proto__''}"
  by (simp add: init_conditions_met_def init_conditions_met_fold)

lemma assign_own: "k \<in> fst ` set obj \<Longrightarrow> assign k v obj = AList.update k v obj"
  by (simp add: assign_def)

lemma marked_keys: "cid \<in> fst ` set cm \<Longrightarrow> fst ` set (assign cid True cm) = fst ` set cm"
  by (auto simp: assign_own dom_update)

text \<open>
  What \<^verbatim>\<open>MarkConditionMet\<close> does for a condition id that is not a name of
  \<^verbatim>\<open>Object.prototype\<close>. Let \<open>e\<close> be an escrow stored under \<open>eid\<close>, with its conditions,
  payments and price. The operation fails with \<open>InvalidStateError\<close> unless the status of
  \<open>e\<close> is \<open>created\<close> or \<open>in_progress\<close>, and then with \<open>UnknownConditionError\<close> if \<open>cid\<close> is
  not a key of \<^verbatim>\<open>conditions_met\<close>; both write nothing. For a key \<open>cid\<close>, with \<open>details\<close>
  that are JSON, it stores and returns \<open>e\<close> with \<open>cid\<close> set to true in
  \<^verbatim>\<open>conditions_met\<close>, one verification record appended, and the status
  \<open>ready_for_completion\<close> if and only if every condition is then true and the sum of the
  payment amounts differs from the price by less than 0.01; if not, the status is as before.
\<close>

lemma MarkConditionMet_marks_condition:
  fixes e :: doc and ps :: "payment list" and now cid verifier :: string and pr :: rat and vj :: json
    and cm :: "(string \<times> bool) list"
  defines "e' \<equiv> e\<lparr>conditions_met := Some (AList.update cid True cm),
                   verifications := Some ((case verifications e of None \<Rightarrow> [] | Some vs \<Rightarrow> vs)
                        @ [\<lparr>conditionId = cid, verifierId = verifier, ver_details = vj,
                            ver_timestamp = now\<rparr>]),
                   status := (if list_all snd (AList.update cid True cm)
                                  \<and> \<bar>totalPaid ps - pr\<bar> < 1 / 100
                              then ready_for_completion else status e),
                   updatedAt := now\<rparr>"
  assumes "getState s eid = Some e" and "conditions_met e = Some cm" and "payments e = Some ps"
    and "price e = Some pr"
  shows "(status e \<noteq> created \<and> status e \<noteq> in_progress \<longrightarrow>
            MarkConditionMet now s eid cid verifier vd = (Inl InvalidStateError, s))
       \<and> ((status e = created \<or> status e = in_progress) \<and> cid \<notin> fst ` set cm
            \<and> cid \<notin> set Object_prototype \<longrightarrow>
            MarkConditionMet now s eid cid verifier vd = (Inl UnknownConditionError, s))
       \<and> ((status e = created \<or> status e = in_progress) \<and> cid \<in> fst ` set cm \<longrightarrow>
            MarkConditionMet now s eid cid verifier (Some vj) = (Inr e', s(eid \<mapsto> e'))
            \<and> map_of (AList.update cid True cm) = (map_of cm)(cid \<mapsto> True)
            \<and> (status e' = ready_for_completion)
                 = (list_all snd (AList.update cid True cm) \<and> \<bar>totalPaid ps - pr\<bar> < 1 / 100))"
  using assms(2-) unfolding e'_def
  by (auto simp: MarkConditionMet_def store_defs Let_def fully_paid_def allConditionsMet_def
        update_conv' has_property_def assign_own)

text \<open>
  In the example, with 70000 and 50000 paid of 120000, marking \<open>c1\<close> makes the escrow ready;
  marking the undeclared \<open>c2\<close> fails.
\<close>

lemma MarkConditionMet_marks_condition_example:
  "map_option status (getState (fst (sale_upto 5)) ''e1'') = Some in_progress
   \<and> map_option conditions_met (getState (fst (sale_upto 5)) ''e1'') = Some (Some [(''c1'', False)])
   \<and> map_sum id (\<lambda>d. (status d, conditions_met d, map_option (map conditionId) (verifications d)))
        (fst (MarkConditionMet ''t5'' (fst (sale_upto 5)) ''e1'' ''c1'' ''notary'' (Some [])))
       = Inr (ready_for_completion, Some [(''c1'', True)], Some [''c1''])
   \<and> fst (MarkConditionMet ''t5'' (fst (sale_upto 5)) ''e1'' ''c2'' ''notary'' (Some []))
       = Inl UnknownConditionError"
  by (simp add: sale_upto_def sale_def eval_defs)

text \<open>
  Claim C4 asks for \<open>UnknownConditionError\<close> whenever the condition id was not declared
  when the escrow was created. The source tests \<^verbatim>\<open>conditionId in escrow.conditions_met\<close>,
  which also holds of every name inherited from \<^verbatim>\<open>Object.prototype\<close>. The escrow of
  the example declares the one condition \<open>c1\<close>, not yet met. Marking \<^verbatim>\<open>toString\<close> on it
  does not fail: it returns, the escrow stays \<open>in_progress\<close>, \<^verbatim>\<open>toString\<close> is stored as
  a condition that is met, and a verification record for it is appended.
\<close>

theorem MarkConditionMet_inherited_name:
  "map_option (\<lambda>d. (status d, conditions_met d)) (getState (fst (sale_upto 5)) ''e1'')
     = Some (in_progress, Some [(''c1'', False)])
   \<and> map_sum id (\<lambda>d. (status d, conditions_met d, map_option (map conditionId) (verifications d)))
        (fst (MarkConditionMet ''t5'' (fst (sale_upto 5)) ''e1'' ''toString'' ''notary'' (Some [])))
       = Inr (in_progress, Some [(''c1'', False), (''toString'', True)], Some [''toString''])
   \<and> map_option conditions_met
        (getState (snd (MarkConditionMet ''t5'' (fst (sale_upto 5)) ''e1'' ''toString'' ''notary''
                          (Some []))) ''e1'')
       = Some (Some [(''c1'', False), (''toString'', True)])"
  by (simp add: sale_upto_def sale_def eval_defs)

section \<open>Adding a payment\<close>



section \<open>Payments of ready and completed escrows\<close>

























section \<open>Terminal escrows\<close>

text \<open>
  Claim C7. When the escrow stored under \<open>eid\<close> has status \<open>completed\<close> or \<open>cancelled\<close>,
  each of \<^verbatim>\<open>AddPayment\<close>, \<^verbatim>\<open>AddDocument\<close>, \<^verbatim>\<open>MarkConditionMet\<close>,
  \<^verbatim>\<open>CompleteEscrow\<close> and \<^verbatim>\<open>CancelEscrow\<close> invoked on \<open>eid\<close> fails with
  \<open>InvalidStateError\<close> and leaves the ledger, and so the escrow, as it was; a second
  \<^verbatim>\<open>CancelEscrow\<close> of a cancelled escrow is among these.
\<close>

theorem terminal_escrow_is_frozen:
  assumes "getState s eid = Some e" and "status e = completed \<or> status e = cancelled"
  shows "AddPayment now s eid payId amt meth pd = (Inl InvalidStateError, s)
       \<and> AddDocument now s eid docId dtype dhash meta = (Inl InvalidStateError, s)
       \<and> MarkConditionMet now s eid cid verifier vd = (Inl InvalidStateError, s)
       \<and> CompleteEscrow now s eid = (Inl InvalidStateError, s)
       \<and> CancelEscrow now s eid reason = (Inl InvalidStateError, s)"
  using assms by (auto simp: op_defs)

text \<open>The completed escrow of the example refuses all five.\<close>

theorem terminal_escrow_is_frozen_witness:
  "getState (fst (sale_upto 7)) ''e1'' \<noteq> None
   \<and> map_option status (getState (fst (sale_upto 7)) ''e1'') = Some completed
   \<and> AddPayment ''t7'' (fst (sale_upto 7)) ''e1'' ''pay3'' 1 ''wire'' (Some [])
        = (Inl InvalidStateError, fst (sale_upto 7))
   \<and> AddDocument ''t7'' (fst (sale_upto 7)) ''e1'' ''d1'' ''deed'' ''0xabc'' (Some [])
        = (Inl InvalidStateError, fst (sale_upto 7))
   \<and> MarkConditionMet ''t7'' (fst (sale_upto 7)) ''e1'' ''c1'' ''notary'' (Some [])
        = (Inl InvalidStateError, fst (sale_upto 7))
   \<and> CompleteEscrow ''t7'' (fst (sale_upto 7)) ''e1'' = (Inl InvalidStateError, fst (sale_upto 7))
   \<and> CancelEscrow ''t7'' (fst (sale_upto 7)) ''e1'' ''late'' = (Inl InvalidStateError, fst (sale_upto 7))"
proof -
  have "\<exists>d. fst (sale_upto 7) ''e1'' = Some d \<and> status d = completed"
    by (simp add: sale_upto_def sale_def eval_defs)
  then obtain d where d: "fst (sale_upto 7) ''e1'' = Some d" "status d = completed"
    by blast
  then have e: "getState (fst (sale_upto 7)) ''e1'' = Some d" by (simp add: getState_def)
  from terminal_escrow_is_frozen[OF e disjI1[OF d(2)]] d show ?thesis
    by (simp add: getState_def)
qed

section \<open>The owner of a property and its history\<close>

lemma owner_by_history_handed:
  "owner_by_history g (d\<lparr>history := Some (h @ [x]), ownerId := new\<rparr>) = (new = toOwnerId x)"
  by (simp add: owner_by_history_def)


lemma owner_by_history_registered:
  "owner_by_history (Some owner) ((object ''property'' active now)
                \<lparr>propertyId := Some pid, address := Some addr, ownerId := Some owner,
                 details := Some dj, history := Some []\<rparr>)"
  by (simp add: owner_by_history_def)

lemma owner_by_history_update:
  "owner_by_history g (d\<lparr>updatedAt := a\<rparr>) = owner_by_history g d"
  "owner_by_history g (d\<lparr>details := b\<rparr>) = owner_by_history g d"
  "owner_by_history g (d\<lparr>status := c\<rparr>) = owner_by_history g d"
  "owner_by_history g (d\<lparr>cancellationReason := e\<rparr>) = owner_by_history g d"
  "owner_by_history g (d\<lparr>payments := f\<rparr>) = owner_by_history g d"
  "owner_by_history g (d\<lparr>documents := i\<rparr>) = owner_by_history g d"
  "owner_by_history g (d\<lparr>conditions_met := j\<rparr>) = owner_by_history g d"
  "owner_by_history g (d\<lparr>verifications := l\<rparr>) = owner_by_history g d"
  by (simp_all add: owner_by_history_def split: option.split)

lemma owner_step:
  assumes inv: "owner_is_last_recipient s g" and run: "invoke now s call = (Inr r, s')"
  shows "owner_is_last_recipient s' (registered call g)"
proof (cases call)
  case (RegisterPropertyOp pid addr owner dtl)
  with run RegisterProperty_returns[of now s pid addr owner dtl r s'] inv show ?thesis
    by (auto simp: owner_is_last_recipient_def owner_by_history_registered split: if_split_asm)
next
  case (UpdatePropertyOp pid dtl)
  with run UpdateProperty_returns[of now s pid dtl r s'] inv show ?thesis
    by (auto simp: owner_is_last_recipient_def owner_by_history_update split: if_split_asm)
next
  case (TransferPropertyOp pid cur new dtl)
  with run TransferProperty_returns[of now s pid cur new dtl r s'] inv show ?thesis
    by (auto simp: owner_is_last_recipient_def owner_by_history_update owner_by_history_handed split: if_split_asm)
next
  case (CreateTransactionOp tid pid seller buyer pr meth nts)
  with run CreateTransaction_returns[of now s tid pid seller buyer pr meth nts r s'] inv show ?thesis
    by (auto simp: owner_is_last_recipient_def object_def split: if_split_asm)
next
  case (CompleteTransactionOp tid)
  with run CompleteTransaction_returns[of now s tid r s'] inv show ?thesis
    by (auto simp: owner_is_last_recipient_def owner_by_history_update owner_by_history_handed split: if_split_asm)
next
  case (CancelTransactionOp tid reason)
  with run CancelTransaction_returns[of now s tid reason r s'] inv show ?thesis
    by (auto simp: owner_is_last_recipient_def owner_by_history_update split: if_split_asm)
next
  case (CreateEscrowOp eid tid pid seller buyer pr conds)
  with run CreateEscrow_returns[of now s eid tid pid seller buyer pr conds r s'] inv show ?thesis
    by (auto simp: owner_is_last_recipient_def object_def split: if_split_asm)
next
  case (AddPaymentOp eid payId amt meth dtl)
  with run AddPayment_returns[of now s eid payId amt meth dtl r s'] inv show ?thesis
    by (auto simp: owner_is_last_recipient_def owner_by_history_update split: if_split_asm)
next
  case (AddDocumentOp eid docId dtype dhash meta)
  with run AddDocument_returns[of now s eid docId dtype dhash meta r s'] inv show ?thesis
    by (auto simp: owner_is_last_recipient_def owner_by_history_update split: if_split_asm)
next
  case (MarkConditionMetOp eid cid verifier dtl)
  with run MarkConditionMet_returns[of now s eid cid verifier dtl r s'] inv show ?thesis
    by (auto simp: owner_is_last_recipient_def owner_by_history_update split: if_split_asm)
next
  case (CompleteEscrowOp eid)
  with run CompleteEscrow_returns[of now s eid r s'] inv show ?thesis
    by (auto simp: owner_is_last_recipient_def owner_by_history_update owner_by_history_handed split: if_split_asm)
next
  case (CancelEscrowOp eid reason)
  with run CancelEscrow_returns[of now s eid reason r s'] inv show ?thesis
    by (auto simp: owner_is_last_recipient_def owner_by_history_update split: if_split_asm)
qed

text \<open>
  Claim C8. In every ledger that the operations of the three contracts build from the
  empty ledger, \<^verbatim>\<open>RegisterProperty\<close>, \<^verbatim>\<open>UpdateProperty\<close>, \<^verbatim>\<open>TransferProperty\<close>,
  \<^verbatim>\<open>CompleteEscrow\<close> and \<^verbatim>\<open>CompleteTransaction\<close> among them, every property has a
  history, and its owner is the \<^verbatim>\<open>toOwnerId\<close> of the last entry of the history, or, if
  the history is empty, the owner given when its id was last registered.
\<close>

theorem owner_follows_history:
  assumes "reachable anything s g"
  shows "owner_is_last_recipient s g"
  using assms
proof (induction rule: reachable.induct)
  case genesis
  show ?case by (simp add: owner_is_last_recipient_def)
next
  case (invoked s g call now r s')
  then show ?case by (blast intro: owner_step)
qed

text \<open>After the sale of the example \<open>bob\<close> owns \<open>p1\<close>, as the last entry of its history says.\<close>

theorem owner_follows_history_witness:
  "reachable anything (fst (sale_upto 7)) (snd (sale_upto 7))
   \<and> map_option ownerId (fst (sale_upto 7) ''p1'') = Some (Some ''bob'')
   \<and> owner_is_last_recipient (fst (sale_upto 7)) (snd (sale_upto 7))"
proof -
  have r: "reachable anything (fst (sale_upto 7)) (snd (sale_upto 7))"
    unfolding sale_upto_def by (rule reachable_run[OF reachable_genesis guarded_anything])
  from owner_follows_history[OF r] r show ?thesis
    by (simp add: sale_upto_def sale_def eval_defs)
qed

section \<open>Cancelling an escrow whose transaction is missing\<close>

text \<open>
  Claim C10. When the escrow stored under \<open>eid\<close> is neither \<open>completed\<close> nor \<open>cancelled\<close>
  and nothing is stored under its transaction id, \<^verbatim>\<open>CancelEscrow(eid, reason)\<close> returns:
  it raises no error, it stores the escrow with status \<open>cancelled\<close> and the reason (the
  words "No reason provided" for an empty reason), and it writes under no other key, so
  that the transaction id still holds nothing.
\<close>

theorem CancelEscrow_without_transaction:
  assumes "getState s eid = Some e"
    and "status e \<noteq> completed" and "status e \<noteq> cancelled"
    and "transactionId e = Some tid" and "getState s tid = None"
  shows "CancelEscrow now s eid reason =
           (Inr (e\<lparr>status := cancelled,
                   cancellationReason := Some (if reason = [] then ''No reason provided'' else reason),
                   updatedAt := now\<rparr>),
            s(eid \<mapsto> e\<lparr>status := cancelled,
                   cancellationReason := Some (if reason = [] then ''No reason provided'' else reason),
                   updatedAt := now\<rparr>))
       \<and> getState (snd (CancelEscrow now s eid reason)) tid = None"
  using assms by (auto simp: CancelEscrow_def store_defs or_default_def Let_def)

text \<open>
  No operation removes a key, so no run of operations leaves an escrow without its
  transaction; the ledger here is the one of the example after the two payments, with
  \<open>tx1\<close> taken out.
\<close>

theorem CancelEscrow_without_transaction_witness:
  "getState ((fst (sale_upto 5))(''tx1'' := None)) ''e1'' \<noteq> None
   \<and> getState ((fst (sale_upto 5))(''tx1'' := None)) ''tx1'' = None
   \<and> map_sum id (\<lambda>d. (status d, cancellationReason d))
        (fst (CancelEscrow ''t5'' ((fst (sale_upto 5))(''tx1'' := None)) ''e1'' ''buyer withdrew''))
       = Inr (cancelled, Some ''buyer withdrew'')
   \<and> getState (snd (CancelEscrow ''t5'' ((fst (sale_upto 5))(''tx1'' := None)) ''e1'' ''buyer withdrew''))
         ''tx1'' = None"
proof -
  let ?s = "(fst (sale_upto 5))(''tx1'' := None)"
  have "\<exists>d. fst (sale_upto 5) ''e1'' = Some d \<and> status d = in_progress
          \<and> transactionId d = Some ''tx1''"
    by (simp add: sale_upto_def sale_def eval_defs)
  then obtain d where d: "fst (sale_upto 5) ''e1'' = Some d" "status d = in_progress"
    "transactionId d = Some ''tx1''"
    by blast
  from d have e: "getState ?s ''e1'' = Some d" and no: "getState ?s ''tx1'' = None"
    and st: "status d \<noteq> completed" "status d \<noteq> cancelled"
    by (simp_all add: getState_def)
  from CancelEscrow_without_transaction[OF e st d(3) no, of "''t5''" "''buyer withdrew''"] d
  show ?thesis by (simp add: getState_def)
qed

end
